theory Spec2Isabelle
  imports Main "HOL-Library.Product_Lexorder" "HOL-Library.Sublist"
begin

section \<open>Dates and timestamps\<close>

text \<open>
  \<^verbatim>\<open>start_date\<close> and \<^verbatim>\<open>end_date\<close> are \<^verbatim>\<open>datetime.date\<close> values (the result of
  \<^verbatim>\<open>st.date_input\<close>). Python orders dates as the triples (year, month, day).
\<close>

datatype date = Date (year: int) (month: int) (day: int)

definition date_key :: "date \<Rightarrow> int \<times> int \<times> int" where
  "date_key d = (year d, month d, day d)"

definition date_le :: "date \<Rightarrow> date \<Rightarrow> bool" where
  "date_le a b = (date_key a \<le> date_key b)"

definition date_gt :: "date \<Rightarrow> date \<Rightarrow> bool" where
  "date_gt a b = (date_key b < date_key a)"

text \<open>
  A timezone-naive \<^verbatim>\<open>pd.Timestamp\<close>: its calendar date (\<^verbatim>\<open>.date()\<close>) and the
  nanoseconds elapsed since midnight of that date. Timestamps are ordered by the instant
  they denote, that is by date first and time of day second. The date picker offers dates
  within ten years of today, all of which pandas represents, so no bound is put on the
  year.
\<close>

datatype timestamp = Timestamp (ts_date: date) (ts_nanos: nat)

definition ts_key :: "timestamp \<Rightarrow> (int \<times> int \<times> int) \<times> nat" where
  "ts_key t = (date_key (ts_date t), ts_nanos t)"

definition ts_le :: "timestamp \<Rightarrow> timestamp \<Rightarrow> bool" where
  "ts_le a b = (ts_key a \<le> ts_key b)"

text \<open>\<^verbatim>\<open>pd.Timestamp(d)\<close> for a date \<open>d\<close>: midnight at the start of that day.\<close>

definition pd_Timestamp :: "date \<Rightarrow> timestamp" where
  "pd_Timestamp d = Timestamp d 0"

section \<open>Data frames\<close>

text \<open>
  A cell of a \<^verbatim>\<open>DataFrame\<close>: a missing value of an object column (\<open>NaN\<close>), a Python
  string, a missing value of a datetime column (\<open>NaT\<close>), or a timestamp.
\<close>

datatype cell = NaN | Str string | NaT | Time timestamp

text \<open>
  A frame has its column labels in order and its rows in order; a row carries its index
  label and one cell per column. Boolean-mask selection keeps the index labels of the
  surviving rows, as pandas does.
\<close>

record 'c frame =
  columns :: "'c list"
  rows :: "(nat \<times> cell list) list"

datatype exn =
    KeyError string
  | TypeError string
  | Raised string

text \<open>\<^verbatim>\<open>str(e)\<close>: a \<^verbatim>\<open>KeyError\<close> prints the repr of its key.\<close>

fun str_exn :: "exn \<Rightarrow> string" where
  "str_exn (KeyError k) = [CHR 0x27] @ k @ [CHR 0x27]"
| "str_exn (TypeError m) = m"
| "str_exn (Raised m) = m"

fun index_of :: "'a list \<Rightarrow> 'a \<Rightarrow> nat" where
  "index_of [] a = 0"
| "index_of (x # xs) a = (if x = a then 0 else Suc (index_of xs a))"

text \<open>The cell of a row in the column labelled \<open>c\<close>.\<close>

definition cell_at :: "'c list \<Rightarrow> 'c \<Rightarrow> nat \<times> cell list \<Rightarrow> cell" where
  "cell_at cols c r = snd r ! index_of cols c"

text \<open>\<^verbatim>\<open>df[c]\<close>: the column as a series; a \<^verbatim>\<open>KeyError\<close> when no column has that label.\<close>

definition getitem :: "string frame \<Rightarrow> string \<Rightarrow> exn + cell list" where
  "getitem df c =
     (if c \<in> set (columns df) then Inr (map (cell_at (columns df) c) (rows df))
      else Inl (KeyError c))"

text \<open>\<^verbatim>\<open>df[mask]\<close> for a boolean series: the rows whose mask entry is true, in order.\<close>

definition getitem_mask :: "'c frame \<Rightarrow> bool list \<Rightarrow> 'c frame" where
  "getitem_mask df m = \<lparr>columns = columns df, rows = map fst (filter snd (zip (rows df) m))\<rparr>"

text \<open>
  Comparing a series with a timestamp. On a datetime column the comparison is
  elementwise and a \<open>NaT\<close> compares false; on a column that still holds strings Python
  raises a \<^verbatim>\<open>TypeError\<close>.
\<close>

fun is_datetime :: "cell \<Rightarrow> bool" where
  "is_datetime NaT = True"
| "is_datetime (Time t) = True"
| "is_datetime c = False"

fun cell_ge :: "timestamp \<Rightarrow> cell \<Rightarrow> bool" where
  "cell_ge b (Time t) = ts_le b t"
| "cell_ge b c = False"

fun cell_le :: "timestamp \<Rightarrow> cell \<Rightarrow> bool" where
  "cell_le b (Time t) = ts_le t b"
| "cell_le b c = False"

definition series_ge :: "cell list \<Rightarrow> timestamp \<Rightarrow> exn + bool list" where
  "series_ge s b =
     (if list_all is_datetime s then Inr (map (cell_ge b) s)
      else Inl (TypeError ''>= not supported between instances of str and Timestamp''))"

definition series_le :: "cell list \<Rightarrow> timestamp \<Rightarrow> exn + bool list" where
  "series_le s b =
     (if list_all is_datetime s then Inr (map (cell_le b) s)
      else Inl (TypeError ''<= not supported between instances of str and Timestamp''))"

text \<open>\<^verbatim>\<open>m1 & m2\<close> on boolean series.\<close>

definition series_and :: "bool list \<Rightarrow> bool list \<Rightarrow> bool list" where
  "series_and m1 m2 = map (\<lambda>(a, b). a \<and> b) (zip m1 m2)"

text \<open>\<^verbatim>\<open>s.isin(values)\<close>: a missing value is in no list of strings.\<close>

fun cell_isin :: "string list \<Rightarrow> cell \<Rightarrow> bool" where
  "cell_isin vs (Str x) = (x \<in> set vs)"
| "cell_isin vs c = False"

definition isin :: "cell list \<Rightarrow> string list \<Rightarrow> bool list" where
  "isin s vs = map (cell_isin vs) s"

section \<open>The filter pipeline\<close>

text \<open>
  Step 7 of the script:
  \<^verbatim>\<open>filtered_df = df[(df["timestamp"] >= pd.Timestamp(start_date)) &
                   (df["timestamp"] <= pd.Timestamp(end_date))]\<close>
\<close>

definition date_filter :: "date \<Rightarrow> date \<Rightarrow> string frame \<Rightarrow> exn + string frame" where
  "date_filter start_date end_date df =
     (case getitem df ''timestamp'' of
        Inl e \<Rightarrow> Inl e
      | Inr s1 \<Rightarrow>
         (case series_ge s1 (pd_Timestamp start_date) of
            Inl e \<Rightarrow> Inl e
          | Inr m1 \<Rightarrow>
             (case getitem df ''timestamp'' of
                Inl e \<Rightarrow> Inl e
              | Inr s2 \<Rightarrow>
                 (case series_le s2 (pd_Timestamp end_date) of
                    Inl e \<Rightarrow> Inl e
                  | Inr m2 \<Rightarrow> Inr (getitem_mask df (series_and m1 m2))))))"

text \<open>
  Step 8 of the script:
  \<^verbatim>\<open>if status_codes_filter:
      filtered_df = filtered_df[filtered_df["statuscode"].isin(status_codes_filter)]\<close>
\<close>

definition status_filter :: "string list \<Rightarrow> string frame \<Rightarrow> exn + string frame" where
  "status_filter status_codes_filter filtered_df =
     (if status_codes_filter \<noteq> [] then
        (case getitem filtered_df ''statuscode'' of
           Inl e \<Rightarrow> Inl e
         | Inr s \<Rightarrow> Inr (getitem_mask filtered_df (isin s status_codes_filter)))
      else Inr filtered_df)"

text \<open>Steps 7 and 8 together: the filter of the specification.\<close>

definition filter_tweets ::
  "date \<Rightarrow> date \<Rightarrow> string list \<Rightarrow> string frame \<Rightarrow> exn + string frame" where
  "filter_tweets start_date end_date status_codes_filter df =
     (case date_filter start_date end_date df of
        Inl e \<Rightarrow> Inl e
      | Inr filtered_df \<Rightarrow> status_filter status_codes_filter filtered_df)"

section \<open>The record table builder\<close>

text \<open>
  The parser is called with the four field names of \<^verbatim>\<open>field_options\<close> and returns one
  mapping per capture, keyed by those names. A mapping is an insertion-ordered dictionary,
  here an association list; a key that is not listed is absent from the mapping.
\<close>

datatype field =
    archived_timestamp
  | original_tweet_url
  | archived_tweet_url
  | archived_statuscode

type_synonym parsed_record = "(field \<times> string) list"

definition field_options :: "field list" where
  "field_options =
     [archived_timestamp, original_tweet_url, archived_tweet_url, archived_statuscode]"

text \<open>
  \<^verbatim>\<open>pd.DataFrame(parsed_tweets)\<close> on a list of dictionaries: the columns are the keys of
  all the dictionaries in the order in which they are first seen, the index is
  \<open>0, 1, 2, \<dots>\<close>, and a key that a dictionary lacks gives a \<open>NaN\<close> cell in its row.
\<close>

definition first_seen :: "'a list \<Rightarrow> 'a list" where
  "first_seen ks = foldl (\<lambda>acc k. if k \<in> set acc then acc else acc @ [k]) [] ks"

definition record_cell :: "parsed_record \<Rightarrow> field \<Rightarrow> cell" where
  "record_cell d c = (case map_of d c of None \<Rightarrow> NaN | Some v \<Rightarrow> Str v)"

definition DataFrame :: "parsed_record list \<Rightarrow> field frame" where
  "DataFrame data =
     (let cols = first_seen (concat (map (map fst) data))
      in \<lparr>columns = cols,
          rows = map (\<lambda>(i, d). (i, map (record_cell d) cols)) (enumerate 0 data)\<rparr>)"

text \<open>Step 5 of the script: \<^verbatim>\<open>df.rename(columns={...}, inplace=True)\<close>.\<close>

fun rename_column :: "field \<Rightarrow> string" where
  "rename_column archived_timestamp = ''timestamp''"
| "rename_column original_tweet_url = ''original_url''"
| "rename_column archived_tweet_url = ''archived_url''"
| "rename_column archived_statuscode = ''statuscode''"

definition rename :: "field frame \<Rightarrow> string frame" where
  "rename df = \<lparr>columns = map rename_column (columns df), rows = rows df\<rparr>"

text \<open>
  \<^verbatim>\<open>pd.to_datetime(s, errors="coerce")\<close>. How pandas reads one string as a date-time is
  not part of this program: it is the parameter \<open>parse\<close>, which is given the strings of the
  whole column too (pandas infers one format for the column). What the call fixes is kept:
  a string that cannot be read, and a missing value, become \<open>NaT\<close> and nothing is raised.
\<close>

fun the_strings :: "cell list \<Rightarrow> string list" where
  "the_strings [] = []"
| "the_strings (Str x # cs) = x # the_strings cs"
| "the_strings (c # cs) = the_strings cs"

fun coerce :: "(string \<Rightarrow> timestamp option) \<Rightarrow> cell \<Rightarrow> cell" where
  "coerce p (Str x) = (case p x of None \<Rightarrow> NaT | Some t \<Rightarrow> Time t)"
| "coerce p (Time t) = Time t"
| "coerce p c = NaT"

definition to_datetime :: "(string list \<Rightarrow> string \<Rightarrow> timestamp option) \<Rightarrow> cell list \<Rightarrow> cell list" where
  "to_datetime parse s = map (coerce (parse (the_strings s))) s"

text \<open>\<^verbatim>\<open>df[c] = s\<close>: replaces the column labelled \<open>c\<close>, or appends it when it is new.\<close>

definition setitem :: "string frame \<Rightarrow> string \<Rightarrow> cell list \<Rightarrow> string frame" where
  "setitem df c s =
     (if c \<in> set (columns df) then
        \<lparr>columns = columns df,
         rows = map (\<lambda>((i, r), v). (i, r[index_of (columns df) c := v])) (zip (rows df) s)\<rparr>
      else
        \<lparr>columns = columns df @ [c],
         rows = map (\<lambda>((i, r), v). (i, r @ [v])) (zip (rows df) s)\<rparr>)"

text \<open>Steps 4 to 6 of the script: build the frame, rename, convert the timestamps.\<close>

definition build ::
  "(string list \<Rightarrow> string \<Rightarrow> timestamp option) \<Rightarrow> parsed_record list \<Rightarrow> exn + string frame" where
  "build parse parsed_tweets =
     (let df = rename (DataFrame parsed_tweets)
      in case getitem df ''timestamp'' of
           Inl e \<Rightarrow> Inl e
         | Inr s \<Rightarrow> Inr (setitem df ''timestamp'' (to_datetime parse s)))"

section \<open>One click on the query button\<close>

text \<open>
  What one run of the body of \<^verbatim>\<open>if st.button("Query Tweets"):\<close> does, in order: the
  Streamlit elements it emits and the calls it makes to the archive client and to the
  parser.
\<close>

datatype action =
    St_error string
  | St_info string
  | St_success string
  | St_warning string
  | St_write string
  | St_dataframe "string frame"
  | St_download_button (label: string) (data: string) (file_name: string) (mime: string)
  | Api_get string
  | Parser_parse string "field list"

text \<open>
  The collaborators of the script, not part of this repository: the archive client
  (\<^verbatim>\<open>WaybackTweets(username).get()\<close>), the parser
  (\<^verbatim>\<open>TweetsParser(archived_tweets, username, field_options).parse()\<close>), the date-time
  reader of pandas, and \<^verbatim>\<open>to_csv(index=False).encode("utf-8")\<close>. A call of the first two
  or of the last returns a value or raises. The archive client returns a list of captures;
  a result that Python takes for false (\<^verbatim>\<open>None\<close>, an empty list) is the empty list here.
\<close>

record 'r env =
  api_get :: "string \<Rightarrow> exn + 'r list"
  parser_parse :: "'r list \<Rightarrow> string \<Rightarrow> field list \<Rightarrow> exn + parsed_record list"
  parse_datetime :: "string list \<Rightarrow> string \<Rightarrow> timestamp option"
  to_csv_utf8 :: "string frame \<Rightarrow> exn + string"

text \<open>\<^verbatim>\<open>str(n)\<close> for a natural number, as the f-string of the success banner prints it.\<close>

fun str_nat :: "nat \<Rightarrow> string" where
  "str_nat n =
     (if n < 10 then [''0123456789'' ! n]
      else str_nat (n div 10) @ [''0123456789'' ! (n mod 10)])"

declare str_nat.simps [simp del]

text \<open>\<^verbatim>\<open>except Exception as e: st.error(f"An error occurred: {str(e)}")\<close>\<close>

definition handler :: "exn \<Rightarrow> action list" where
  "handler e = [St_error (''An error occurred: '' @ str_exn e)]"

text \<open>\<^verbatim>\<open>len(df)\<close> and \<^verbatim>\<open>df.empty\<close> (no rows or no columns).\<close>

definition len :: "'c frame \<Rightarrow> nat" where
  "len df = length (rows df)"

definition empty :: "'c frame \<Rightarrow> bool" where
  "empty df = (rows df = [] \<or> columns df = [])"

text \<open>Step 9 of the script: the banner, then the table and the download, or the warning.\<close>

definition display :: "'r env \<Rightarrow> string \<Rightarrow> string frame \<Rightarrow> action list" where
  "display env username filtered_df =
     St_success (''Found '' @ str_nat (len filtered_df) @ '' tweets in the specified range.'') #
     (if \<not> empty filtered_df then
        St_write ''Filtered Archived Tweets:'' #
        St_dataframe filtered_df #
        (case to_csv_utf8 env filtered_df of
           Inl e \<Rightarrow> handler e
         | Inr csv_data \<Rightarrow>
             [St_download_button ''Download Filtered Tweets as CSV'' csv_data
                (username @ ''_archived_tweets.csv'') ''text/csv''])
      else [St_warning ''No tweets match the specified filters.''])"

text \<open>The body of the \<^verbatim>\<open>try\<close> block.\<close>

definition fetch_and_show ::
  "'r env \<Rightarrow> string \<Rightarrow> date \<Rightarrow> date \<Rightarrow> string list \<Rightarrow> action list" where
  "fetch_and_show env username start_date end_date status_codes_filter =
     Api_get username #
     (case api_get env username of
        Inl e \<Rightarrow> handler e
      | Inr archived_tweets \<Rightarrow>
          if archived_tweets \<noteq> [] then
            Parser_parse username field_options #
            (case parser_parse env archived_tweets username field_options of
               Inl e \<Rightarrow> handler e
             | Inr parsed_tweets \<Rightarrow>
                 (case build (parse_datetime env) parsed_tweets of
                    Inl e \<Rightarrow> handler e
                  | Inr df \<Rightarrow>
                      (case filter_tweets start_date end_date status_codes_filter df of
                         Inl e \<Rightarrow> handler e
                       | Inr filtered_df \<Rightarrow> display env username filtered_df)))
          else [St_warning ''No archived tweets found for the given username.''])"

text \<open>The validation and the whole run.\<close>

definition query ::
  "'r env \<Rightarrow> string \<Rightarrow> date \<Rightarrow> date \<Rightarrow> string list \<Rightarrow> action list" where
  "query env username start_date end_date status_codes_filter =
     (if username = [] then [St_error ''Please enter a valid Twitter username.'']
      else if date_gt start_date end_date then
        [St_error ''The end date must be after the start date.'']
      else
        St_info ''Fetching archived tweets. Please wait...'' #
        fetch_and_show env username start_date end_date status_codes_filter)"

section \<open>Notions used in the statements\<close>

text \<open>
  The two masks of the filter, read row by row: \<open>in_range\<close> is the conjunction of the two
  comparisons of step 7 on the timestamp cell of a row, \<open>status_ok\<close> is the membership
  test of step 8 on its statuscode cell.
\<close>

definition in_range :: "date \<Rightarrow> date \<Rightarrow> string list \<Rightarrow> nat \<times> cell list \<Rightarrow> bool" where
  "in_range s e cols r =
     (cell_ge (pd_Timestamp s) (cell_at cols ''timestamp'' r) \<and>
      cell_le (pd_Timestamp e) (cell_at cols ''timestamp'' r))"

definition status_ok :: "string list \<Rightarrow> string list \<Rightarrow> nat \<times> cell list \<Rightarrow> bool" where
  "status_ok codes cols r = cell_isin codes (cell_at cols ''statuscode'' r)"

text \<open>
  What steps 7 and 8 need of the table that steps 4 to 6 hand over: a timestamp column
  holding date-times or \<open>NaT\<close>, and a statuscode column.
\<close>

definition record_table :: "string frame \<Rightarrow> bool" where
  "record_table df =
     (''timestamp'' \<in> set (columns df) \<and> ''statuscode'' \<in> set (columns df) \<and>
      list_all is_datetime (map (cell_at (columns df) ''timestamp'') (rows df)))"

text \<open>The columns of the frame built from a list of parsed records, before renaming.\<close>

definition build_cols :: "parsed_record list \<Rightarrow> field list" where
  "build_cols recs = first_seen (concat (map (map fst) recs))"

fun shows_table :: "action \<Rightarrow> bool" where
  "shows_table (St_dataframe df) = True"
| "shows_table a = False"

subsection \<open>Example inputs\<close>

definition four_columns :: "string list" where
  "four_columns = [''timestamp'', ''original_url'', ''archived_url'', ''statuscode'']"

text \<open>
  Three captures of March 2024 with the status codes 200, 404 and 200, and the two of them
  with status code 200.
\<close>

definition scenario_A :: "string frame" where
  "scenario_A =
     \<lparr>columns = four_columns,
      rows =
        [(0, [Time (Timestamp (Date 2024 3 5) 0), Str ''https://twitter.com/jack/status/1'',
              Str ''https://web.archive.org/web/20240305000000/https://twitter.com/jack/status/1'',
              Str ''200'']),
         (1, [Time (Timestamp (Date 2024 3 9) 0), Str ''https://twitter.com/jack/status/2'',
              Str ''https://web.archive.org/web/20240309000000/https://twitter.com/jack/status/2'',
              Str ''404'']),
         (2, [Time (Timestamp (Date 2024 3 31) 0), Str ''https://twitter.com/jack/status/3'',
              Str ''https://web.archive.org/web/20240331000000/https://twitter.com/jack/status/3'',
              Str ''200''])]\<rparr>"

definition scenario_A_kept :: "string frame" where
  "scenario_A_kept =
     \<lparr>columns = four_columns,
      rows =
        [(0, [Time (Timestamp (Date 2024 3 5) 0), Str ''https://twitter.com/jack/status/1'',
              Str ''https://web.archive.org/web/20240305000000/https://twitter.com/jack/status/1'',
              Str ''200'']),
         (2, [Time (Timestamp (Date 2024 3 31) 0), Str ''https://twitter.com/jack/status/3'',
              Str ''https://web.archive.org/web/20240331000000/https://twitter.com/jack/status/3'',
              Str ''200''])]\<rparr>"

text \<open>One capture taken at 12:00:00 on 1 May 2024.\<close>

definition noon_table :: "string frame" where
  "noon_table =
     \<lparr>columns = four_columns,
      rows =
        [(0, [Time (Timestamp (Date 2024 5 1) 43200000000000),
              Str ''https://twitter.com/jack/status/20'',
              Str ''https://web.archive.org/web/20240501120000/https://twitter.com/jack/status/20'',
              Str ''200''])]\<rparr>"

text \<open>
  Four captures around the range from 1 May to 31 May 2024: at midnight of the first day,
  at midnight of the last day, late on the day before and early on the day after.
\<close>

definition row_first_day :: "nat \<times> cell list" where
  "row_first_day = (0, [Time (Timestamp (Date 2024 5 1) 0), Str ''u0'', Str ''a0'', Str ''200''])"

definition row_last_day :: "nat \<times> cell list" where
  "row_last_day = (1, [Time (Timestamp (Date 2024 5 31) 0), Str ''u1'', Str ''a1'', Str ''200''])"

definition row_day_before :: "nat \<times> cell list" where
  "row_day_before =
     (2, [Time (Timestamp (Date 2024 4 30) 86399000000000), Str ''u2'', Str ''a2'', Str ''200''])"

definition row_day_after :: "nat \<times> cell list" where
  "row_day_after =
     (3, [Time (Timestamp (Date 2024 6 1) 1000000000), Str ''u3'', Str ''a3'', Str ''200''])"

definition boundary_table :: "string frame" where
  "boundary_table =
     \<lparr>columns = four_columns,
      rows = [row_first_day, row_last_day, row_day_before, row_day_after]\<rparr>"

text \<open>A parsed record with the four fields, and one that lacks its status code.\<close>

definition capture_record :: parsed_record where
  "capture_record =
     [(archived_timestamp, ''20230115093000''),
      (original_tweet_url, ''https://twitter.com/jack/status/20''),
      (archived_tweet_url, ''https://web.archive.org/web/20230115093000/https://twitter.com/jack/status/20''),
      (archived_statuscode, ''200'')]"

definition capture_without_status :: parsed_record where
  "capture_without_status =
     [(archived_timestamp, ''20230115093000''),
      (original_tweet_url, ''https://twitter.com/jack/status/21''),
      (archived_tweet_url, ''https://web.archive.org/web/20230115093000/https://twitter.com/jack/status/21'')]"

definition read_datetime :: "string list \<Rightarrow> string \<Rightarrow> timestamp option" where
  "read_datetime column x =
     (if x = ''20230115093000'' then Some (Timestamp (Date 2023 1 15) 34200000000000) else None)"

definition built_without_status :: "string frame" where
  "built_without_status =
     \<lparr>columns = four_columns,
      rows =
        [(0, [Time (Timestamp (Date 2023 1 15) 34200000000000),
              Str ''https://twitter.com/jack/status/20'',
              Str ''https://web.archive.org/web/20230115093000/https://twitter.com/jack/status/20'',
              Str ''200'']),
         (1, [Time (Timestamp (Date 2023 1 15) 34200000000000),
              Str ''https://twitter.com/jack/status/21'',
              Str ''https://web.archive.org/web/20230115093000/https://twitter.com/jack/status/21'',
              NaN])]\<rparr>"

text \<open>
  An archive that holds five captures of January 2023 for every handle, with a parser
  that returns the same four fields for each of them.
\<close>

definition scenario_D_env :: "nat env" where
  "scenario_D_env =
     \<lparr>api_get = (\<lambda>username. Inr [1, 2, 3, 4, 5]),
      parser_parse = (\<lambda>archived_tweets username fields. Inr (map (\<lambda>n. capture_record) archived_tweets)),
      parse_datetime = read_datetime,
      to_csv_utf8 = (\<lambda>df. Inl (Raised ''no export in this example''))\<rparr>"

definition scenario_D_table :: "string frame" where
  "scenario_D_table =
     \<lparr>columns = four_columns,
      rows = map (\<lambda>i. (i, [Time (Timestamp (Date 2023 1 15) 34200000000000),
                Str ''https://twitter.com/jack/status/20'',
                Str ''https://web.archive.org/web/20230115093000/https://twitter.com/jack/status/20'',
                Str ''200''])) [0, 1, 2, 3, 4]\<rparr>"

section \<open>Lemmas on masks, dates and the two filters\<close>

lemma mask_map: "map fst (filter snd (zip xs (map P xs))) = filter P xs"
  by (induction xs) auto

lemma series_and_map: "series_and (map P xs) (map Q xs) = map (\<lambda>x. P x \<and> Q x) xs"
  by (induction xs) (auto simp: series_and_def)

lemma ts_le_refl: "ts_le x x"
  by (simp add: ts_le_def)

lemma pd_Timestamp_sel: "ts_date (pd_Timestamp d) = d" "ts_nanos (pd_Timestamp d) = 0"
  by (simp_all add: pd_Timestamp_def)

lemma ts_ge_midnight: "ts_le (pd_Timestamp d) t = date_le d (ts_date t)"
  by (auto simp: ts_le_def pd_Timestamp_def ts_key_def date_le_def)

lemma ts_le_midnight_key:
  "ts_le t (pd_Timestamp d) =
     (date_key (ts_date t) < date_key d \<or> (date_key (ts_date t) = date_key d \<and> ts_nanos t = 0))"
  unfolding ts_le_def pd_Timestamp_def ts_key_def by auto

lemma date_key_inj: "(date_key a = date_key b) = (a = b)"
  by (cases a; cases b) (simp add: date_key_def)

text \<open>
  The upper comparison of step 7 is against midnight at the start of \<open>end_date\<close>: a
  timestamp passes it when its date is before \<open>end_date\<close>, or when it is \<open>end_date\<close> at
  00:00:00 exactly.
\<close>

lemma ts_le_midnight:
  "ts_le t (pd_Timestamp d) = (date_gt d (ts_date t) \<or> (ts_date t = d \<and> ts_nanos t = 0))"
  by (simp add: ts_le_midnight_key date_key_inj date_gt_def)

lemma date_filter_eq:
  "date_filter s e df =
     (if ''timestamp'' \<notin> set (columns df) then Inl (KeyError ''timestamp'')
      else if \<not> list_all is_datetime (map (cell_at (columns df) ''timestamp'') (rows df)) then
        Inl (TypeError ''>= not supported between instances of str and Timestamp'')
      else Inr \<lparr>columns = columns df, rows = filter (in_range s e (columns df)) (rows df)\<rparr>)"
  by (simp add: date_filter_def getitem_def series_ge_def series_le_def getitem_mask_def
      series_and_map mask_map in_range_def [abs_def])

lemma status_filter_eq:
  "status_filter codes df =
     (if codes = [] then Inr df
      else if ''statuscode'' \<notin> set (columns df) then Inl (KeyError ''statuscode'')
      else Inr \<lparr>columns = columns df, rows = filter (status_ok codes (columns df)) (rows df)\<rparr>)"
  by (simp add: status_filter_def getitem_def isin_def getitem_mask_def mask_map
      status_ok_def [abs_def] comp_def)

lemma filter_tweets_cases:
  "filter_tweets s e codes df =
     (if ''timestamp'' \<notin> set (columns df) then Inl (KeyError ''timestamp'')
      else if \<not> list_all is_datetime (map (cell_at (columns df) ''timestamp'') (rows df)) then
        Inl (TypeError ''>= not supported between instances of str and Timestamp'')
      else if codes = [] then
        Inr \<lparr>columns = columns df, rows = filter (in_range s e (columns df)) (rows df)\<rparr>
      else if ''statuscode'' \<notin> set (columns df) then Inl (KeyError ''statuscode'')
      else Inr \<lparr>columns = columns df,
                rows = filter (\<lambda>r. in_range s e (columns df) r \<and> status_ok codes (columns df) r)
                         (rows df)\<rparr>)"
  by (simp add: filter_tweets_def date_filter_eq status_filter_eq conj_commute)

lemma filter_tweets_Inr:
  assumes "filter_tweets s e codes df = Inr out"
  shows "out = \<lparr>columns = columns df,
                rows = filter (\<lambda>r. in_range s e (columns df) r \<and>
                                    (codes = [] \<or> status_ok codes (columns df) r)) (rows df)\<rparr>"
    and "''timestamp'' \<in> set (columns df)"
    and "list_all is_datetime (map (cell_at (columns df) ''timestamp'') (rows df))"
    and "codes = [] \<or> ''statuscode'' \<in> set (columns df)"
  using assms by (auto simp: filter_tweets_cases split: if_splits)

text \<open>On a record table the filter returns a table: neither step raises.\<close>

lemma filter_tweets_total:
  "record_table df \<Longrightarrow>
   filter_tweets s e codes df =
     Inr \<lparr>columns = columns df,
          rows = filter (\<lambda>r. in_range s e (columns df) r \<and>
                              (codes = [] \<or> status_ok codes (columns df) r)) (rows df)\<rparr>"
  by (cases "codes = []") (simp_all add: filter_tweets_cases record_table_def)

text \<open>
  What the date filter keeps, in terms of the calendar date of a row: the rows with a
  timestamp whose date is from \<open>start_date\<close> on and before \<open>end_date\<close>, and those stamped
  \<open>end_date\<close> at 00:00:00 exactly.
\<close>

lemma in_range_iff:
  "in_range s e cols r =
     (\<exists>t. cell_at cols ''timestamp'' r = Time t \<and> date_le s (ts_date t) \<and>
          (date_gt e (ts_date t) \<or> (ts_date t = e \<and> ts_nanos t = 0)))"
  by (cases "cell_at cols ''timestamp'' r") (simp_all add: in_range_def ts_ge_midnight ts_le_midnight)

lemma date_filter_rows:
  "date_filter s e df = Inr out \<Longrightarrow>
   rows out = filter (in_range s e (columns df)) (rows df) \<and> columns out = columns df"
  by (auto simp: date_filter_eq split: if_splits)

section \<open>Evaluating the examples\<close>

lemmas date_simps = date_le_def date_gt_def date_key_def ts_le_def ts_key_def pd_Timestamp_def

lemmas frame_simps = getitem_def getitem_mask_def series_ge_def series_le_def series_and_def
  isin_def cell_at_def date_filter_def status_filter_def filter_tweets_def

lemma scenario_A_eval:
  "filter_tweets (Date 2024 3 1) (Date 2024 3 31) [''200''] scenario_A = Inr scenario_A_kept"
  by (simp add: scenario_A_def scenario_A_kept_def four_columns_def frame_simps date_simps)

lemma scenario_A_record_table: "record_table scenario_A"
  by (simp add: record_table_def scenario_A_def four_columns_def cell_at_def)

lemma boundary_table_eval:
  "date_filter (Date 2024 5 1) (Date 2024 5 31) boundary_table =
     Inr \<lparr>columns = four_columns, rows = [row_first_day, row_last_day]\<rparr>"
  by (simp add: boundary_table_def row_first_day_def row_last_day_def row_day_before_def
      row_day_after_def four_columns_def frame_simps date_simps)

section \<open>The date filter\<close>

text \<open>
  C1. The specification keeps a row if and only if its timestamp is not null and its
  calendar date lies between \<open>start_date\<close> and \<open>end_date\<close>, both included. The script
  compares the timestamp with \<^verbatim>\<open>pd.Timestamp(end_date)\<close>, which is midnight at the start of
  \<open>end_date\<close>, so a capture taken later on that day is dropped: with the range from
  1 April to 1 May 2024, the capture of 1 May 2024 at 12:00:00 has its calendar date in
  the range and is not in the result. (Lemma \<open>in_range_iff\<close> above is what the script keeps
  in general.)
\<close>

theorem date_filter_drops_end_date_noon:
  "date_le (Date 2024 4 1) (Date 2024 5 1) \<and>
   cell_at (columns noon_table) ''timestamp'' (rows noon_table ! 0) =
     Time (Timestamp (Date 2024 5 1) 43200000000000) \<and>
   date_le (Date 2024 4 1) (ts_date (Timestamp (Date 2024 5 1) 43200000000000)) \<and>
   date_le (ts_date (Timestamp (Date 2024 5 1) 43200000000000)) (Date 2024 5 1) \<and>
   date_filter (Date 2024 4 1) (Date 2024 5 1) noon_table =
     Inr \<lparr>columns = four_columns, rows = []\<rparr>"
  by (simp add: noon_table_def four_columns_def frame_simps date_simps)

text \<open>
  C7. Whenever \<open>start_date \<le> end_date\<close> and the date filter returns a table, a row stamped
  \<open>start_date\<close> at midnight is in it, a row stamped \<open>end_date\<close> at midnight is in it, and a
  row whose date is before \<open>start_date\<close> or after \<open>end_date\<close> (one day outside, or more) is
  not.
\<close>

theorem date_filter_boundary:
  assumes "date_le start_date end_date"
    and "date_filter start_date end_date df = Inr out"
    and "r \<in> set (rows df)"
  shows "(cell_at (columns df) ''timestamp'' r = Time (pd_Timestamp start_date) \<longrightarrow>
            r \<in> set (rows out)) \<and>
         (cell_at (columns df) ''timestamp'' r = Time (pd_Timestamp end_date) \<longrightarrow>
            r \<in> set (rows out)) \<and>
         (\<forall>t. cell_at (columns df) ''timestamp'' r = Time t \<longrightarrow>
              date_gt start_date (ts_date t) \<or> date_gt (ts_date t) end_date \<longrightarrow>
              r \<notin> set (rows out))"
proof -
  from assms(2) have out: "rows out = filter (in_range start_date end_date (columns df)) (rows df)"
    by (simp add: date_filter_rows)
  show ?thesis
    using assms(1,3) unfolding out
    by (auto simp: in_range_def ts_ge_midnight ts_le_midnight_key ts_le_refl date_le_def
        date_gt_def pd_Timestamp_sel)
qed

theorem date_filter_boundary_witness:
  "date_le (Date 2024 5 1) (Date 2024 5 31) \<and>
   date_filter (Date 2024 5 1) (Date 2024 5 31) boundary_table =
     Inr \<lparr>columns = four_columns, rows = [row_first_day, row_last_day]\<rparr> \<and>
   cell_at (columns boundary_table) ''timestamp'' row_first_day =
     Time (pd_Timestamp (Date 2024 5 1)) \<and>
   row_first_day \<in> set (rows \<lparr>columns = four_columns, rows = [row_first_day, row_last_day]\<rparr>) \<and>
   cell_at (columns boundary_table) ''timestamp'' row_last_day =
     Time (pd_Timestamp (Date 2024 5 31)) \<and>
   row_last_day \<in> set (rows \<lparr>columns = four_columns, rows = [row_first_day, row_last_day]\<rparr>) \<and>
   date_gt (Date 2024 5 1) (Date 2024 4 30) \<and>
   row_day_before \<notin> set (rows \<lparr>columns = four_columns, rows = [row_first_day, row_last_day]\<rparr>) \<and>
   date_gt (Date 2024 6 1) (Date 2024 5 31) \<and>
   row_day_after \<notin> set (rows \<lparr>columns = four_columns, rows = [row_first_day, row_last_day]\<rparr>)"
proof -
  have le: "date_le (Date 2024 5 1) (Date 2024 5 31)"
    by (simp add: date_simps)
  have mem: "row_first_day \<in> set (rows boundary_table)" "row_last_day \<in> set (rows boundary_table)"
    "row_day_before \<in> set (rows boundary_table)" "row_day_after \<in> set (rows boundary_table)"
    by (simp_all add: boundary_table_def)
  have cells:
    "cell_at (columns boundary_table) ''timestamp'' row_first_day = Time (pd_Timestamp (Date 2024 5 1))"
    "cell_at (columns boundary_table) ''timestamp'' row_last_day = Time (pd_Timestamp (Date 2024 5 31))"
    "cell_at (columns boundary_table) ''timestamp'' row_day_before =
       Time (Timestamp (Date 2024 4 30) 86399000000000)"
    "cell_at (columns boundary_table) ''timestamp'' row_day_after =
       Time (Timestamp (Date 2024 6 1) 1000000000)"
    by (simp_all add: boundary_table_def four_columns_def cell_at_def row_first_day_def
        row_last_day_def row_day_before_def row_day_after_def pd_Timestamp_def)
  have gt: "date_gt (Date 2024 5 1) (Date 2024 4 30)" "date_gt (Date 2024 6 1) (Date 2024 5 31)"
    by (simp_all add: date_simps)
  show ?thesis
    using date_filter_boundary [OF le boundary_table_eval mem(1)]
      date_filter_boundary [OF le boundary_table_eval mem(2)]
      date_filter_boundary [OF le boundary_table_eval mem(3)]
      date_filter_boundary [OF le boundary_table_eval mem(4)]
      le boundary_table_eval cells gt
    by simp
qed

section \<open>The status filter\<close>

text \<open>
  C4. On a table with a statuscode column the status filter returns a table. When
  \<open>status_codes\<close> is not empty, every row that the status filter keeps is a row of the
  date-filtered table whose statuscode is a string of \<open>status_codes\<close>; when it is empty,
  the table is returned as it is. A date-filtered table of three rows with the
  status codes 200, 404 and 200, filtered with \<open>{"200"}\<close>, gives the first and the third
  row, in this order.
\<close>

theorem status_filter_membership:
  "(''statuscode'' \<in> set (columns df) \<longrightarrow> (\<exists>out. status_filter codes df = Inr out)) \<and>
   (codes \<noteq> [] \<longrightarrow> status_filter codes df = Inr out \<longrightarrow>
      (\<forall>r \<in> set (rows out). r \<in> set (rows df) \<and>
         (\<exists>c. cell_at (columns df) ''statuscode'' r = Str c \<and> c \<in> set codes))) \<and>
   status_filter [] df = Inr df \<and>
   (''statuscode'' \<in> set (columns df) \<longrightarrow> rows df = [r1, r2, r3] \<longrightarrow>
      cell_at (columns df) ''statuscode'' r1 = Str ''200'' \<longrightarrow>
      cell_at (columns df) ''statuscode'' r2 = Str ''404'' \<longrightarrow>
      cell_at (columns df) ''statuscode'' r3 = Str ''200'' \<longrightarrow>
      status_filter [''200''] df = Inr \<lparr>columns = columns df, rows = [r1, r3]\<rparr>)"
proof -
  have isin: "cell_isin codes c = (\<exists>x. c = Str x \<and> x \<in> set codes)" for c
    by (cases c) auto
  show ?thesis
    by (auto simp: status_filter_eq status_ok_def [abs_def] isin split: if_splits)
qed

theorem status_filter_membership_witness:
  "[''200''] \<noteq> [] \<and> ''statuscode'' \<in> set (columns scenario_A) \<and>
   cell_at (columns scenario_A) ''statuscode'' (rows scenario_A ! 0) = Str ''200'' \<and>
   cell_at (columns scenario_A) ''statuscode'' (rows scenario_A ! 1) = Str ''404'' \<and>
   cell_at (columns scenario_A) ''statuscode'' (rows scenario_A ! 2) = Str ''200'' \<and>
   status_filter [''200''] scenario_A = Inr scenario_A_kept \<and>
   list_all (\<lambda>r. cell_at (columns scenario_A) ''statuscode'' r = Str ''200'') (rows scenario_A_kept) \<and>
   status_filter [] scenario_A = Inr scenario_A \<and>
   filter_tweets (Date 2024 3 1) (Date 2024 3 31) [''200''] scenario_A = Inr scenario_A_kept"
proof -
  have ev: "status_filter [''200''] scenario_A = Inr scenario_A_kept"
    by (simp add: scenario_A_def scenario_A_kept_def four_columns_def frame_simps)
  show ?thesis
    using status_filter_membership [where codes = "[''200'']" and df = scenario_A
        and out = scenario_A_kept and ?r1.0 = "rows scenario_A ! 0"
        and ?r2.0 = "rows scenario_A ! 1" and ?r3.0 = "rows scenario_A ! 2"]
      ev scenario_A_eval
    by (simp add: scenario_A_def scenario_A_kept_def four_columns_def cell_at_def)
qed

section \<open>The filter as a whole\<close>

text \<open>
  C6. On every record table the filter returns a table; and whenever it returns one, that
  table has the columns of its input, no more rows than its input, and its rows are a
  subsequence of the rows of the input: they come in their original order, and a row that
  is kept is kept at each of its occurrences.
\<close>

theorem filter_tweets_subsequence:
  "(record_table df \<longrightarrow> (\<exists>out. filter_tweets s e codes df = Inr out)) \<and>
   (filter_tweets s e codes df = Inr out \<longrightarrow>
      columns out = columns df \<and> length (rows out) \<le> length (rows df) \<and>
      subseq (rows out) (rows df) \<and>
      rows out = filter (\<lambda>r. r \<in> set (rows out)) (rows df))"
proof (intro conjI impI)
  assume "record_table df"
  then show "\<exists>out. filter_tweets s e codes df = Inr out"
    by (simp add: filter_tweets_total)
next
  let ?P = "\<lambda>r. in_range s e (columns df) r \<and> (codes = [] \<or> status_ok codes (columns df) r)"
  assume a: "filter_tweets s e codes df = Inr out"
  then have out: "out = \<lparr>columns = columns df, rows = filter ?P (rows df)\<rparr>"
    by (rule filter_tweets_Inr(1))
  have "filter ?P (rows df) = filter (\<lambda>r. r \<in> set (filter ?P (rows df))) (rows df)"
    by (rule filter_cong) auto
  then show "rows out = filter (\<lambda>r. r \<in> set (rows out)) (rows df)"
    by (simp add: out)
  show "columns out = columns df" "length (rows out) \<le> length (rows df)"
    "subseq (rows out) (rows df)"
    by (simp_all add: out)
qed

theorem filter_tweets_subsequence_witness:
  "record_table scenario_A \<and>
   filter_tweets (Date 2024 3 1) (Date 2024 3 31) [''200''] scenario_A = Inr scenario_A_kept \<and>
   columns scenario_A_kept = columns scenario_A \<and>
   length (rows scenario_A_kept) \<le> length (rows scenario_A) \<and>
   subseq (rows scenario_A_kept) (rows scenario_A) \<and>
   rows scenario_A_kept = filter (\<lambda>r. r \<in> set (rows scenario_A_kept)) (rows scenario_A)"
  using filter_tweets_subsequence
      [of scenario_A "Date 2024 3 1" "Date 2024 3 31" "[''200'']" scenario_A_kept]
    scenario_A_eval scenario_A_record_table
  by simp

text \<open>
  C8. On every record table the filter returns a table; and whenever the filter returns a
  table, the filter applied to that table with the same dates and status codes returns
  the very same table (columns, index labels and cells).
\<close>

theorem filter_tweets_idempotent:
  "(record_table df \<longrightarrow> (\<exists>out. filter_tweets s e codes df = Inr out)) \<and>
   (filter_tweets s e codes df = Inr out \<longrightarrow> filter_tweets s e codes out = Inr out)"
proof (intro conjI impI)
  assume "record_table df"
  then show "\<exists>out. filter_tweets s e codes df = Inr out"
    by (simp add: filter_tweets_total)
next
  assume a: "filter_tweets s e codes df = Inr out"
  note f = filter_tweets_Inr [OF a]
  show "filter_tweets s e codes out = Inr out"
    using f(2,3,4) by (subst (1 2) f(1)) (auto simp: filter_tweets_cases list_all_iff)
qed

theorem filter_tweets_idempotent_witness:
  "record_table scenario_A \<and>
   date_le (Date 2024 3 1) (Date 2024 3 31) \<and>
   filter_tweets (Date 2024 3 1) (Date 2024 3 31) [''200''] scenario_A = Inr scenario_A_kept \<and>
   filter_tweets (Date 2024 3 1) (Date 2024 3 31) [''200''] scenario_A_kept = Inr scenario_A_kept"
  using filter_tweets_idempotent
      [of scenario_A "Date 2024 3 1" "Date 2024 3 31" "[''200'']" scenario_A_kept]
    scenario_A_eval scenario_A_record_table
  by (simp add: date_simps)

section \<open>The record table builder\<close>

lemma set_foldl_first_seen:
  "set (foldl (\<lambda>acc k. if k \<in> set acc then acc else acc @ [k]) acc ks) = set acc \<union> set ks"
  by (induction ks arbitrary: acc) auto

lemma set_first_seen: "set (first_seen ks) = set ks"
  by (simp add: first_seen_def set_foldl_first_seen)

lemma set_build_cols: "set (build_cols recs) = (\<Union>d \<in> set recs. fst ` set d)"
  by (simp add: build_cols_def set_first_seen)

lemma index_of_less: "k \<in> set xs \<Longrightarrow> index_of xs k < length xs"
  by (induction xs) auto

lemma nth_index_of: "k \<in> set xs \<Longrightarrow> xs ! index_of xs k = k"
  by (induction xs) auto

lemma index_of_neq: "k \<in> set xs \<Longrightarrow> k \<noteq> k' \<Longrightarrow> index_of xs k \<noteq> index_of xs k'"
  by (induction xs) auto

lemma inj_rename_column: "(rename_column a = rename_column b) = (a = b)"
  by (cases a; cases b) simp_all

lemma index_of_rename:
  "index_of (map rename_column xs) (rename_column k) = index_of xs k"
  by (induction xs) (auto simp: inj_rename_column)

lemma index_of_timestamp:
  "index_of (map rename_column xs) ''timestamp'' = index_of xs archived_timestamp"
  using index_of_rename [of xs archived_timestamp] by simp

lemma timestamp_in_renamed:
  "(''timestamp'' \<in> set (map rename_column xs)) = (archived_timestamp \<in> set xs)"
proof -
  have "(rename_column archived_timestamp \<in> set (map rename_column xs)) = (archived_timestamp \<in> set xs)"
    by (auto simp: inj_rename_column simp del: rename_column.simps)
  then show ?thesis by simp
qed

lemma columns_DataFrame: "columns (DataFrame recs) = build_cols recs"
  by (simp add: DataFrame_def Let_def build_cols_def)

lemma rows_DataFrame:
  "rows (DataFrame recs) =
     map (\<lambda>(i, d). (i, map (record_cell d) (build_cols recs))) (enumerate 0 recs)"
  by (simp add: DataFrame_def Let_def build_cols_def)

lemma zip_map_self: "zip xs (map f xs) = map (\<lambda>x. (x, f x)) xs"
  by (induction xs) auto

lemma map_enumerate_snd: "map (\<lambda>(i, d). g d) (enumerate n xs) = map g xs"
  by (induction xs arbitrary: n) auto

lemma setitem_existing:
  "c \<in> set (columns df) \<Longrightarrow>
   setitem df c (map f (map (cell_at (columns df) c) (rows df))) =
     \<lparr>columns = columns df,
      rows = map (\<lambda>r. (fst r, (snd r)[index_of (columns df) c := f (cell_at (columns df) c r)]))
               (rows df)\<rparr>"
  by (simp add: setitem_def zip_map_self comp_def case_prod_beta)

lemma record_cell_missing: "k \<notin> fst ` set d \<Longrightarrow> record_cell d k = NaN"
proof -
  assume "k \<notin> fst ` set d"
  then have "map_of d k = None" by (simp add: map_of_eq_None_iff)
  then show ?thesis by (simp add: record_cell_def)
qed

lemma is_datetime_coerce: "is_datetime (coerce p c)"
  by (cases c) (auto split: option.splits)

text \<open>
  Steps 4 to 6 in one equation: the builder raises exactly when no record has the
  \<open>archived_timestamp\<close> key; otherwise row \<open>i\<close> holds the cells of record \<open>i\<close> under the
  columns of the frame, with the timestamp cell converted.
\<close>

lemma build_eq:
  "build parse recs =
     (if archived_timestamp \<in> set (build_cols recs) then
        Inr \<lparr>columns = map rename_column (build_cols recs),
             rows = map (\<lambda>(i, d). (i, (map (record_cell d) (build_cols recs))
                       [index_of (build_cols recs) archived_timestamp :=
                          coerce (parse (the_strings (map (\<lambda>d. record_cell d archived_timestamp) recs)))
                            (record_cell d archived_timestamp)])) (enumerate 0 recs)\<rparr>
      else Inl (KeyError ''timestamp''))"
proof (cases "archived_timestamp \<in> set (build_cols recs)")
  case False
  then show ?thesis
    by (simp add: build_def Let_def getitem_def rename_def columns_DataFrame
        timestamp_in_renamed del: set_map)
next
  case True
  let ?cols = "build_cols recs"
  let ?df = "rename (DataFrame recs)"
  have cols: "columns ?df = map rename_column ?cols"
    by (simp add: rename_def columns_DataFrame)
  have mem: "''timestamp'' \<in> set (columns ?df)"
    unfolding cols using True by (simp only: timestamp_in_renamed)
  have idx: "index_of (columns ?df) ''timestamp'' = index_of ?cols archived_timestamp"
    unfolding cols by (rule index_of_timestamp)
  have rws: "rows ?df = map (\<lambda>(i, d). (i, map (record_cell d) ?cols)) (enumerate 0 recs)"
    by (simp add: rename_def rows_DataFrame)
  have cellat: "map (cell_at (columns ?df) ''timestamp'') (rows ?df)
      = map (\<lambda>d. record_cell d archived_timestamp) recs"
  proof -
    have "map (cell_at (columns ?df) ''timestamp'') (rows ?df)
      = map (\<lambda>(i, d). record_cell d archived_timestamp) (enumerate 0 recs)"
      unfolding rws using True
      by (auto simp: cell_at_def idx index_of_less nth_index_of)
    also have "\<dots> = map (\<lambda>d. record_cell d archived_timestamp) recs"
      by (rule map_enumerate_snd)
    finally show ?thesis .
  qed
  have "build parse recs = Inr (setitem ?df ''timestamp''
      (map (coerce (parse (the_strings (map (cell_at (columns ?df) ''timestamp'') (rows ?df)))))
         (map (cell_at (columns ?df) ''timestamp'') (rows ?df))))"
    using mem by (simp add: build_def Let_def getitem_def to_datetime_def)
  also have "\<dots> = Inr \<lparr>columns = columns ?df,
      rows = map (\<lambda>r. (fst r, (snd r)[index_of (columns ?df) ''timestamp'' :=
         coerce (parse (the_strings (map (cell_at (columns ?df) ''timestamp'') (rows ?df))))
           (cell_at (columns ?df) ''timestamp'' r)])) (rows ?df)\<rparr>"
    using mem by (simp only: setitem_existing)
  also have "\<dots> = Inr \<lparr>columns = map rename_column ?cols,
             rows = map (\<lambda>(i, d). (i, (map (record_cell d) ?cols)
                       [index_of ?cols archived_timestamp :=
                          coerce (parse (the_strings (map (\<lambda>d. record_cell d archived_timestamp) recs)))
                            (record_cell d archived_timestamp)])) (enumerate 0 recs)\<rparr>"
    unfolding cellat idx unfolding rws cols using True
    by (auto simp: cell_at_def index_of_timestamp index_of_less nth_index_of)
  finally show ?thesis using True by simp
qed

lemma build_Inr:
  assumes "build parse recs = Inr df"
  shows "archived_timestamp \<in> set (build_cols recs)"
    and "columns df = map rename_column (build_cols recs)"
    and "length (rows df) = length recs"
    and "i < length recs \<Longrightarrow> rows df ! i =
          (i, (map (record_cell (recs ! i)) (build_cols recs))
                [index_of (build_cols recs) archived_timestamp :=
                   coerce (parse (the_strings (map (\<lambda>d. record_cell d archived_timestamp) recs)))
                     (record_cell (recs ! i) archived_timestamp)])"
  using assms by (auto simp: build_eq nth_enumerate_eq split: if_splits)

lemma build_cell:
  assumes b: "build parse recs = Inr df" and i: "i < length recs" and k: "k \<in> set (build_cols recs)"
  shows "cell_at (columns df) (rename_column k) (rows df ! i) =
           (if k = archived_timestamp then
              coerce (parse (the_strings (map (\<lambda>d. record_cell d archived_timestamp) recs)))
                (record_cell (recs ! i) archived_timestamp)
            else record_cell (recs ! i) k)"
proof -
  note f = build_Inr [OF b]
  have lt: "index_of (build_cols recs) k < length (build_cols recs)"
    using k by (rule index_of_less)
  show ?thesis
  proof (cases "k = archived_timestamp")
    case True
    with lt show ?thesis
      by (simp add: cell_at_def f(2) f(4) [OF i] index_of_timestamp)
  next
    case False
    with k have "index_of (build_cols recs) k \<noteq> index_of (build_cols recs) archived_timestamp"
      by (rule index_of_neq)
    with lt False k show ?thesis
      by (simp add: cell_at_def f(2) f(4) [OF i] index_of_rename nth_index_of)
  qed
qed

text \<open>
  The table that the builder returns has a timestamp column of date-times and \<open>NaT\<close>, so
  the date filter does not raise on it.
\<close>

lemma build_datetime_column:
  assumes "build parse recs = Inr df"
  shows "''timestamp'' \<in> set (columns df)"
    and "list_all is_datetime (map (cell_at (columns df) ''timestamp'') (rows df))"
proof -
  note f = build_Inr [OF assms]
  show "''timestamp'' \<in> set (columns df)"
    unfolding f(2) using f(1) by (simp only: timestamp_in_renamed)
  have "is_datetime (cell_at (columns df) ''timestamp'' (rows df ! i))" if "i < length (rows df)" for i
    using build_cell [OF assms, of i archived_timestamp] that f(1) f(3)
    by (simp add: is_datetime_coerce)
  then show "list_all is_datetime (map (cell_at (columns df) ''timestamp'') (rows df))"
    by (simp add: list_all_length)
qed

lemma build_then_date_filter:
  "build parse recs = Inr df \<Longrightarrow> \<exists>out. date_filter s e df = Inr out"
  by (simp add: date_filter_eq build_datetime_column)

lemma build_without_status_eval:
  "build read_datetime [capture_record, capture_without_status] = Inr built_without_status"
  by (simp add: build_def DataFrame_def first_seen_def capture_record_def
      capture_without_status_def rename_def Let_def getitem_def setitem_def to_datetime_def
      cell_at_def record_cell_def read_datetime_def built_without_status_def four_columns_def
      enumerate_eq_zip upt_rec)

text \<open>
  C2, as the specification states it: when some record omits one of the four fields, the
  builder fails with a schema error instead of putting a default in its place. The script
  has no such check. Here the second of two records has no \<open>archived_statuscode\<close>; the
  builder returns a table, and the statuscode cell of the second row is \<open>NaN\<close>.
\<close>

theorem build_missing_statuscode_no_error:
  "archived_statuscode \<notin> fst ` set capture_without_status \<and>
   build read_datetime [capture_record, capture_without_status] = Inr built_without_status \<and>
   cell_at (columns built_without_status) ''statuscode'' (rows built_without_status ! 1) = NaN"
  using build_without_status_eval
  by (simp add: capture_without_status_def built_without_status_def four_columns_def cell_at_def)

text \<open>
  C2, as the script has it. The builder fails, with \<^verbatim>\<open>KeyError('timestamp')\<close>, exactly when
  no record has the \<open>archived_timestamp\<close> field. In every other case it returns a table
  with one row per record; a field is a column of the table exactly when some record has
  it; and where a record omits a field that is a column, its row holds the null marker:
  \<open>NaT\<close> in the timestamp column, \<open>NaN\<close> in the others.
\<close>

theorem build_fills_missing_fields:
  "(build parse recs = Inl (KeyError ''timestamp'')) =
     (\<forall>d \<in> set recs. archived_timestamp \<notin> fst ` set d) \<and>
   ((\<exists>d \<in> set recs. archived_timestamp \<in> fst ` set d) \<longrightarrow>
      (\<exists>df. build parse recs = Inr df \<and> length (rows df) = length recs \<and>
         (\<forall>k. (rename_column k \<in> set (columns df)) = (\<exists>d \<in> set recs. k \<in> fst ` set d)) \<and>
         (\<forall>i k. i < length recs \<longrightarrow> rename_column k \<in> set (columns df) \<longrightarrow>
                k \<notin> fst ` set (recs ! i) \<longrightarrow>
                cell_at (columns df) (rename_column k) (rows df ! i) =
                  (if k = archived_timestamp then NaT else NaN))))"
proof (intro conjI impI)
  show "(build parse recs = Inl (KeyError ''timestamp'')) =
      (\<forall>d \<in> set recs. archived_timestamp \<notin> fst ` set d)"
    by (auto simp: build_eq set_build_cols)
next
  assume "\<exists>d \<in> set recs. archived_timestamp \<in> fst ` set d"
  then have "archived_timestamp \<in> set (build_cols recs)"
    by (simp add: set_build_cols)
  then obtain df where b: "build parse recs = Inr df"
    by (simp add: build_eq)
  note f = build_Inr [OF b]
  have cols: "(rename_column k \<in> set (columns df)) = (k \<in> set (build_cols recs))" for k
    unfolding f(2) by (auto simp: inj_rename_column)
  have "cell_at (columns df) (rename_column k) (rows df ! i) =
      (if k = archived_timestamp then NaT else NaN)"
    if "i < length recs" "rename_column k \<in> set (columns df)" "k \<notin> fst ` set (recs ! i)" for i k
    using build_cell [OF b that(1), of k] that(2,3)
    by (auto simp: cols record_cell_missing)
  with b f(3) cols show "\<exists>df. build parse recs = Inr df \<and> length (rows df) = length recs \<and>
         (\<forall>k. (rename_column k \<in> set (columns df)) = (\<exists>d \<in> set recs. k \<in> fst ` set d)) \<and>
         (\<forall>i k. i < length recs \<longrightarrow> rename_column k \<in> set (columns df) \<longrightarrow>
                k \<notin> fst ` set (recs ! i) \<longrightarrow>
                cell_at (columns df) (rename_column k) (rows df ! i) =
                  (if k = archived_timestamp then NaT else NaN))"
    by (intro exI [of _ df]) (simp add: set_build_cols)
qed

theorem build_fills_missing_fields_witness:
  "archived_timestamp \<in> fst ` set capture_record \<and>
   capture_record \<in> set [capture_record, capture_without_status] \<and>
   archived_statuscode \<notin> fst ` set capture_without_status \<and>
   build read_datetime [capture_record, capture_without_status] = Inr built_without_status \<and>
   build read_datetime [capture_record, capture_without_status] \<noteq> Inl (KeyError ''timestamp'') \<and>
   length (rows built_without_status) = 2 \<and>
   rename_column archived_statuscode \<in> set (columns built_without_status) \<and>
   cell_at (columns built_without_status) (rename_column archived_statuscode)
     (rows built_without_status ! 1) = NaN"
proof -
  let ?recs = "[capture_record, capture_without_status]"
  have k: "archived_timestamp \<in> fst ` set capture_record"
    by (simp add: capture_record_def)
  then have h: "\<exists>d \<in> set ?recs. archived_timestamp \<in> fst ` set d"
    by simp
  have m: "archived_statuscode \<notin> fst ` set (?recs ! 1)"
    by (simp add: capture_without_status_def)
  have c: "rename_column archived_statuscode \<in> set (columns built_without_status)"
    by (simp add: built_without_status_def four_columns_def)
  note t = build_fills_missing_fields [of read_datetime ?recs, THEN conjunct2, rule_format, OF h]
  then obtain df where b: "build read_datetime ?recs = Inr df"
    and len: "length (rows df) = length ?recs"
    and cells: "\<forall>i k. i < length ?recs \<longrightarrow> rename_column k \<in> set (columns df) \<longrightarrow>
        k \<notin> fst ` set (?recs ! i) \<longrightarrow>
        cell_at (columns df) (rename_column k) (rows df ! i) =
          (if k = archived_timestamp then NaT else NaN)"
    by (elim exE conjE)
  from b build_without_status_eval have eq: "df = built_without_status"
    by simp
  have one: "1 < length ?recs"
    by simp
  from cells [rule_format, OF one, of archived_statuscode] c m
  have nan: "cell_at (columns built_without_status) (rename_column archived_statuscode)
     (rows built_without_status ! 1) = NaN"
    unfolding eq by simp
  from len have two: "length (rows built_without_status) = 2"
    unfolding eq by simp
  from k m build_without_status_eval two c nan show ?thesis
    by simp
qed

section \<open>The query as a whole\<close>

lemma str_nat_0: "str_nat 0 = ''0''"
  by (simp add: str_nat.simps)

lemma scenario_D_build:
  "build read_datetime (map (\<lambda>n. capture_record) [1, 2, 3, 4, 5 :: nat]) = Inr scenario_D_table"
  by (simp add: build_def DataFrame_def first_seen_def capture_record_def rename_def Let_def
      getitem_def setitem_def to_datetime_def cell_at_def record_cell_def read_datetime_def
      scenario_D_table_def four_columns_def enumerate_eq_zip upt_rec)

lemma scenario_D_filter:
  "filter_tweets (Date 2024 6 1) (Date 2024 6 30) [] scenario_D_table =
     Inr \<lparr>columns = four_columns, rows = []\<rparr>"
  by (simp add: scenario_D_table_def four_columns_def frame_simps date_simps)

lemma scenario_D_env_sel:
  "api_get scenario_D_env u = Inr [1, 2, 3, 4, 5]"
  "parser_parse scenario_D_env a u fs = Inr (map (\<lambda>n. capture_record) a)"
  "parse_datetime scenario_D_env = read_datetime"
  by (simp_all add: scenario_D_env_def)

text \<open>
  C3, as the specification states it: when every row is filtered out, the table is shown
  as empty. In the script \<^verbatim>\<open>st.dataframe\<close> is called only under
  \<^verbatim>\<open>if not filtered_df.empty\<close>. Here the archive returns five captures of January 2023
  and the range is June 2024: the filter excludes the five rows and the run shows no table.
\<close>

theorem empty_filter_shows_no_table:
  "\<not> date_gt (Date 2024 6 1) (Date 2024 6 30) \<and>
   api_get scenario_D_env ''jack'' = Inr [1, 2, 3, 4, 5] \<and>
   parser_parse scenario_D_env [1, 2, 3, 4, 5] ''jack'' field_options =
     Inr (map (\<lambda>n. capture_record) [1, 2, 3, 4, 5 :: nat]) \<and>
   build (parse_datetime scenario_D_env) (map (\<lambda>n. capture_record) [1, 2, 3, 4, 5 :: nat]) =
     Inr scenario_D_table \<and>
   length (rows scenario_D_table) = 5 \<and>
   filter_tweets (Date 2024 6 1) (Date 2024 6 30) [] scenario_D_table =
     Inr \<lparr>columns = four_columns, rows = []\<rparr> \<and>
   filter shows_table (query scenario_D_env ''jack'' (Date 2024 6 1) (Date 2024 6 30) []) = []"
proof -
  have q: "query scenario_D_env ''jack'' (Date 2024 6 1) (Date 2024 6 30) [] =
           [St_info ''Fetching archived tweets. Please wait...'',
            Api_get ''jack'',
            Parser_parse ''jack'' field_options,
            St_success ''Found 0 tweets in the specified range.'',
            St_warning ''No tweets match the specified filters.'']"
    unfolding query_def fetch_and_show_def
    using scenario_D_build
    by (simp add: scenario_D_env_sel scenario_D_filter display_def empty_def
        len_def str_nat_0 date_simps)
  have l: "length (rows scenario_D_table) = 5"
    by (simp add: scenario_D_table_def)
  have d: "\<not> date_gt (Date 2024 6 1) (Date 2024 6 30)"
    by (simp add: date_simps)
  show ?thesis
    using scenario_D_build
    by (simp add: q l d scenario_D_env_sel scenario_D_filter)
qed

text \<open>
  C3, as the script has it. Whenever the validation passes, the archive client returns a
  list of captures that is not empty, and the filter returns a table without rows, the
  run consists of the information banner, the two calls, the success banner with the
  count 0 and the warning that no tweet matches the filters, which is not the warning for
  an archive without captures. No table is displayed and no download is offered.
\<close>

theorem query_empty_filter:
  assumes "username \<noteq> []" and "\<not> date_gt start_date end_date"
    and "api_get env username = Inr archived_tweets" and "archived_tweets \<noteq> []"
    and "parser_parse env archived_tweets username field_options = Inr parsed_tweets"
    and "build (parse_datetime env) parsed_tweets = Inr df"
    and "filter_tweets start_date end_date status_codes_filter df = Inr filtered_df"
    and "rows filtered_df = []"
  shows "query env username start_date end_date status_codes_filter =
           [St_info ''Fetching archived tweets. Please wait...'',
            Api_get username,
            Parser_parse username field_options,
            St_success ''Found 0 tweets in the specified range.'',
            St_warning ''No tweets match the specified filters.'']
         \<and> ''No tweets match the specified filters.'' \<noteq>
             ''No archived tweets found for the given username.''"
  using assms
  by (simp add: query_def fetch_and_show_def display_def empty_def len_def str_nat_0)

theorem query_empty_filter_witness:
  "''jack'' \<noteq> [] \<and> \<not> date_gt (Date 2024 6 1) (Date 2024 6 30) \<and>
   api_get scenario_D_env ''jack'' = Inr [1, 2, 3, 4, 5] \<and>
   [1, 2, 3, 4, 5 :: nat] \<noteq> [] \<and>
   parser_parse scenario_D_env [1, 2, 3, 4, 5] ''jack'' field_options =
     Inr (map (\<lambda>n. capture_record) [1, 2, 3, 4, 5 :: nat]) \<and>
   build (parse_datetime scenario_D_env) (map (\<lambda>n. capture_record) [1, 2, 3, 4, 5 :: nat]) =
     Inr scenario_D_table \<and>
   filter_tweets (Date 2024 6 1) (Date 2024 6 30) [] scenario_D_table =
     Inr \<lparr>columns = four_columns, rows = []\<rparr> \<and>
   rows \<lparr>columns = four_columns, rows = []\<rparr> = [] \<and>
   query scenario_D_env ''jack'' (Date 2024 6 1) (Date 2024 6 30) [] =
     [St_info ''Fetching archived tweets. Please wait...'',
      Api_get ''jack'',
      Parser_parse ''jack'' field_options,
      St_success ''Found 0 tweets in the specified range.'',
      St_warning ''No tweets match the specified filters.'']"
proof -
  have h1: "''jack'' \<noteq> []" by simp
  have h2: "\<not> date_gt (Date 2024 6 1) (Date 2024 6 30)" by (simp add: date_simps)
  have h3: "api_get scenario_D_env ''jack'' = Inr [1, 2, 3, 4, 5]"
    by (rule scenario_D_env_sel)
  have h4: "[1, 2, 3, 4, 5 :: nat] \<noteq> []" by simp
  have h5: "parser_parse scenario_D_env [1, 2, 3, 4, 5] ''jack'' field_options =
     Inr (map (\<lambda>n. capture_record) [1, 2, 3, 4, 5 :: nat])"
    by (rule scenario_D_env_sel)
  have h6: "build (parse_datetime scenario_D_env) (map (\<lambda>n. capture_record) [1, 2, 3, 4, 5 :: nat]) =
     Inr scenario_D_table"
    by (simp only: scenario_D_env_sel scenario_D_build)
  have h8: "rows \<lparr>columns = four_columns, rows = []\<rparr> = []" by simp
  note t = query_empty_filter [OF h1 h2 h3 h4 h5 h6 scenario_D_filter h8]
  from h1 h2 h3 h4 h5 h6 scenario_D_filter h8 t show ?thesis
    by (intro conjI) (rule TrueI | assumption | simp)+
qed

text \<open>
  C5, as the specification states it: every pair of dates with \<open>start_date\<close> after
  \<open>end_date\<close> gives the error for an end date before the start date. The script tests the
  handle first: with an empty handle and the dates 1 June 2024 and 1 May 2024 the run
  reports the empty handle, and not the dates.
\<close>

theorem empty_handle_hides_date_error:
  "date_gt (Date 2024 6 1) (Date 2024 5 1) \<and>
   query scenario_D_env [] (Date 2024 6 1) (Date 2024 5 1) [] =
     [St_error ''Please enter a valid Twitter username.''] \<and>
   query scenario_D_env [] (Date 2024 6 1) (Date 2024 5 1) [] \<noteq>
     [St_error ''The end date must be after the start date.'']"
  by (simp add: query_def date_simps)

text \<open>
  C5, as the script has it. For every pair of dates with \<open>start_date\<close> after \<open>end_date\<close>
  the run is one error banner and nothing else: no call of the archive client or of the
  parser, no filtering, no table, no download. The banner reports the end date before the
  start date when the handle is not empty, and the empty handle otherwise.
\<close>

theorem query_end_before_start:
  assumes "date_gt start_date end_date"
  shows "query env username start_date end_date status_codes_filter =
           [St_error (if username = [] then ''Please enter a valid Twitter username.''
                      else ''The end date must be after the start date.'')]"
  using assms by (simp add: query_def)

theorem query_end_before_start_witness:
  "date_gt (Date 2024 6 1) (Date 2024 5 1) \<and>
   query scenario_D_env ''jack'' (Date 2024 6 1) (Date 2024 5 1) [''200''] =
     [St_error ''The end date must be after the start date.'']"
proof -
  have h: "date_gt (Date 2024 6 1) (Date 2024 5 1)"
    by (simp add: date_simps)
  from query_end_before_start [OF h, of scenario_D_env "''jack''" "[''200'']"] h
  show ?thesis by simp
qed

text \<open>
  C10. The run is the banner for an empty handle exactly when the handle is the empty
  string. Every other handle, one made of blanks only included, passes this test as it
  was typed: when the dates are in order, the run goes on with the information banner and
  the call of the archive client with that very handle.
\<close>

theorem query_username_check:
  "(query env username start_date end_date status_codes_filter =
      [St_error ''Please enter a valid Twitter username.'']) = (username = []) \<and>
   (username \<noteq> [] \<longrightarrow> \<not> date_gt start_date end_date \<longrightarrow>
      take 2 (query env username start_date end_date status_codes_filter) =
        [St_info ''Fetching archived tweets. Please wait...'', Api_get username])"
  by (simp add: query_def fetch_and_show_def)

theorem query_username_check_witness:
  "''   '' \<noteq> [] \<and> \<not> date_gt (Date 2024 6 1) (Date 2024 6 30) \<and>
   query scenario_D_env ''   '' (Date 2024 6 1) (Date 2024 6 30) [] \<noteq>
     [St_error ''Please enter a valid Twitter username.''] \<and>
   take 2 (query scenario_D_env ''   '' (Date 2024 6 1) (Date 2024 6 30) []) =
     [St_info ''Fetching archived tweets. Please wait...'', Api_get ''   '']"
proof -
  have h1: "''   '' \<noteq> []" by simp
  have h2: "\<not> date_gt (Date 2024 6 1) (Date 2024 6 30)" by (simp add: date_simps)
  note t = query_username_check [of scenario_D_env "''   ''" "Date 2024 6 1" "Date 2024 6 30" "[]"]
  from t h1 have a: "query scenario_D_env ''   '' (Date 2024 6 1) (Date 2024 6 30) [] \<noteq>
     [St_error ''Please enter a valid Twitter username.'']"
    by blast
  from t h1 h2 have b: "take 2 (query scenario_D_env ''   '' (Date 2024 6 1) (Date 2024 6 30) []) =
     [St_info ''Fetching archived tweets. Please wait...'', Api_get ''   '']"
    by blast
  from h1 h2 a b show ?thesis by blast
qed

end
